theory Spec2Isabelle
  imports Complex_Main
begin

section \<open>DocuScan web client: session handling and clipboard export\<close>

text \<open>
  The development follows \<^verbatim>\<open>src/static/script.js\<close> (the current script, the one that
  declares \<^verbatim>\<open>processedImageBase64\<close>). JavaScript strings are modelled as \<^typ>\<open>string\<close>,
  the three global variables and the panels of the page as one record that every handler
  takes and returns, and the asynchronous callbacks (file reader, ajax, timers) as handler
  functions that an explicit event loop fires.

  The user-visible messages of the script are Chinese sentences; each one is a constructor
  of the datatype \<open>message\<close> below, named after what the sentence says.
\<close>

subsection \<open>String helpers of the JavaScript runtime\<close>

text \<open>\<^verbatim>\<open>s.startsWith(p)\<close>.\<close>

definition startsWith :: "string \<Rightarrow> string \<Rightarrow> bool" where
  "startsWith s p = (take (length p) s = p)"

text \<open>\<^verbatim>\<open>s.indexOf(p) !== -1\<close>: \<open>p\<close> occurs somewhere in \<open>s\<close>.\<close>

fun contains :: "string \<Rightarrow> string \<Rightarrow> bool" where
  "contains [] p = (p = [])"
| "contains (c # cs) p = (startsWith (c # cs) p \<or> contains cs p)"

text \<open>\<^verbatim>\<open>s.split('/')\<close>: the pieces between the slashes, never an empty array.\<close>

fun split_slash :: "string \<Rightarrow> string list" where
  "split_slash [] = [[]]"
| "split_slash (c # cs) =
     (if c = CHR ''/'' then [] # split_slash cs
      else (case split_slash cs of
              [] \<Rightarrow> [[c]]
            | p # ps \<Rightarrow> (c # p) # ps))"

text \<open>Decimal rendering of a non-negative integer.\<close>

definition digit_char :: "nat \<Rightarrow> char" where
  "digit_char d = ''0123456789'' ! d"

fun show_nat :: "nat \<Rightarrow> string" where
  "show_nat n =
     (if n < 10 then [digit_char n]
      else show_nat (n div 10) @ [digit_char (n mod 10)])"

declare show_nat.simps [simp del]

subsection \<open>\<^verbatim>\<open>formatFileSize\<close>\<close>

text \<open>
  \<^verbatim>\<open>
  function formatFileSize(bytes) {
      if (bytes === 0) return '0 B';
      const k = 1024;
      const sizes = ['B', 'KB', 'MB', 'GB'];
      const i = Math.floor(Math.log(bytes) / Math.log(k));
      return parseFloat((bytes / Math.pow(k, i)).toFixed(1)) + ' ' + sizes[i];
  }
  \<close>
  The argument is a file size: a non-negative integer that a Number holds exactly, so one
  below \<open>2 ^ 53\<close>. \<^verbatim>\<open>Math.log\<close> and the division work on IEEE doubles. \<open>floor_log1024\<close> is
  the integer part of the exact logarithm to base 1024 (lemma \<open>floor_log1024_real\<close>), and
  \<open>log_index\<close> is the \<^verbatim>\<open>i\<close> of the source: for sizes below \<open>2 ^ 53\<close> the quotient of the two
  doubles has the integer part of the exact logarithm, except for the three sizes just
  below \<open>1024 ^ 5\<close>, whose logarithm rounds to the double of \<^verbatim>\<open>Math.log(1024 ** 5)\<close>, so
  that the quotient is exactly 5. Dividing by a power of 1024 is exact.
  \<^verbatim>\<open>toFixed(1)\<close> rounds to the nearest tenth, the larger one on a tie; \<open>toFixed1\<close> returns
  that number of tenths. \<^verbatim>\<open>parseFloat\<close> followed by the conversion back to a string prints
  the tenths without a trailing \<^verbatim>\<open>.0\<close> (\<open>number_text\<close>). Reading \<^verbatim>\<open>sizes[i]\<close> past the end of
  the array gives \<^verbatim>\<open>undefined\<close>, which the concatenation prints as that word.
\<close>

fun floor_log1024 :: "nat \<Rightarrow> nat" where
  "floor_log1024 n = (if n < 1024 then 0 else Suc (floor_log1024 (n div 1024)))"

declare floor_log1024.simps [simp del]

definition log_index :: "nat \<Rightarrow> nat" where
  "log_index bytes =
     (if 1024 ^ 5 - 3 \<le> bytes \<and> bytes < 1024 ^ 5 then 5 else floor_log1024 bytes)"

definition toFixed1 :: "nat \<Rightarrow> nat \<Rightarrow> nat" where
  "toFixed1 bytes d = (20 * bytes + d) div (2 * d)"

definition number_text :: "nat \<Rightarrow> string" where
  "number_text tenths =
     show_nat (tenths div 10) @
     (if tenths mod 10 = 0 then [] else ''.'' @ show_nat (tenths mod 10))"

definition sizes :: "string list" where
  "sizes = [''B'', ''KB'', ''MB'', ''GB'']"

definition sizes_at :: "nat \<Rightarrow> string" where
  "sizes_at i = (if i < length sizes then sizes ! i else ''undefined'')"

definition formatFileSize :: "nat \<Rightarrow> string" where
  "formatFileSize bytes =
     (if bytes = 0 then ''0 B''
      else let i = log_index bytes
           in number_text (toFixed1 bytes (1024 ^ i)) @ '' '' @ sizes_at i)"

text \<open>
  \<^verbatim>\<open>getImageFormat\<close> expects a data URL; \<^verbatim>\<open>showOriginalImage\<close> passes it \<^verbatim>\<open>file.type\<close>.
\<close>

definition getImageFormat :: "string \<Rightarrow> string" where
  "getImageFormat dataUrl =
     (if startsWith dataUrl ''data:image/jpeg'' then ''JPEG''
      else if startsWith dataUrl ''data:image/png'' then ''PNG''
      else if startsWith dataUrl ''data:image/gif'' then ''GIF''
      else if startsWith dataUrl ''data:image/webp'' then ''WEBP''
      else if startsWith dataUrl ''data:image/svg'' then ''SVG''
      else if startsWith dataUrl ''data:image/bmp'' then ''BMP''
      else ''Unknown'')"

subsection \<open>Files, blobs, requests and messages\<close>

text \<open>
  A \<^verbatim>\<open>File\<close> as the handlers see it: its declared type, name and size, and its content
  (kept in base64, the only form in which the script ever looks at it). A \<^verbatim>\<open>Blob\<close> is
  the same without a name.
\<close>

record image_file =
  ftype :: string
  fname :: string
  fsize :: nat
  fdata :: string

record blob =
  btype :: string
  bdata :: string

text \<open>\<^verbatim>\<open>FileReader.readAsDataURL\<close>: the result of a successful read.\<close>

definition readAsDataURL :: "string \<Rightarrow> string \<Rightarrow> string" where
  "readAsDataURL t d =
     ''data:'' @ (if t = [] then ''application/octet-stream'' else t) @ '';base64,'' @ d"

text \<open>The settings object that \<^verbatim>\<open>processImage\<close> hands to \<^verbatim>\<open>$.ajax\<close>.\<close>

record request =
  url :: string
  http_method :: string
  img :: string
  timeout_ms :: nat

text \<open>
  What the error callback of \<^verbatim>\<open>$.ajax\<close> receives: the HTTP status and the response text,
  the latter as \<^verbatim>\<open>JSON.parse\<close> and the read of \<^verbatim>\<open>.detail\<close> see it.
\<close>

datatype response_body = NotJson | JsonDetail "string option"

record xhr =
  xhr_status :: nat
  xhr_body :: response_body

datatype message =
    InvalidImageFile            \<comment> \<open>please choose a valid image file\<close>
  | FileTooLarge string         \<comment> \<open>image too large: SIZE, choose one below 10MB\<close>
  | InvalidDroppedFile          \<comment> \<open>please drop a valid image file\<close>
  | FileReadFailed              \<comment> \<open>error while reading the image file\<close>
  | NoImageSelected             \<comment> \<open>select or paste an image first\<close>
  | ProcessingFailed            \<comment> \<open>an error occurred while processing the image\<close>
  | RequestTimedOut             \<comment> \<open>the request timed out\<close>
  | PayloadTooLarge             \<comment> \<open>the image is too big (HTTP 413)\<close>
  | ServerDetail string         \<comment> \<open>the detail string of an HTTP 400 response\<close>
  | UnsupportedOrCorrupt        \<comment> \<open>format not supported or file damaged\<close>
  | NetworkError                \<comment> \<open>network connection error\<close>
  | ServerUnavailable           \<comment> \<open>server temporarily unavailable\<close>

subsection \<open>The session\<close>

text \<open>
  The three globals of the script, the panels it shows and hides (jQuery \<^verbatim>\<open>show\<close>/\<^verbatim>\<open>hide\<close>
  on the element of that id, \<open>True\<close> for visible), the two image sources and the error
  alert. The last six fields are the work in progress: file readers that have not
  finished, ajax requests without a response, every request issued so far, readers
  converting a response to base64, pending timers that reveal the result panel, and
  pending timers that fade the error alert out (8 s after each \<^verbatim>\<open>showError\<close>).
  Toasts, the success alert, style classes, progress text and scrolling are not modelled.
\<close>

record session =
  currentImageData :: "string option"
  processedImageBlob :: "blob option"
  processedImageBase64 :: "string option"
  pasteArea :: bool
  pasteAreaLoading :: bool
  originalImageContainer :: bool
  originalImage :: "string option"
  imageInfo :: "(string \<times> string \<times> string) option"
  noImagePlaceholder :: bool
  processingContainer :: bool
  processedImageContainer :: bool
  processedImage :: "string option"
  errorMessage :: "message option"
  errorAlert :: bool
  readers :: "image_file list"
  inflight :: "request list"
  sent :: "request list"
  blobReaders :: "blob list"
  displayTimers :: nat
  alertTimers :: nat

definition initial :: session where
  "initial = \<lparr>currentImageData = None, processedImageBlob = None,
     processedImageBase64 = None, pasteArea = True, pasteAreaLoading = False,
     originalImageContainer = False, originalImage = None, imageInfo = None,
     noImagePlaceholder = True, processingContainer = False,
     processedImageContainer = False, processedImage = None, errorMessage = None,
     errorAlert = False, readers = [], inflight = [], sent = [], blobReaders = [],
     displayTimers = 0, alertTimers = 0\<rparr>"

definition showError :: "message \<Rightarrow> session \<Rightarrow> session" where
  "showError m s =
     s\<lparr>errorMessage := Some m, errorAlert := True, alertTimers := Suc (alertTimers s)\<rparr>"

definition hideAlerts :: "session \<Rightarrow> session" where
  "hideAlerts s = s\<lparr>errorAlert := False\<rparr>"

definition showImageLoadingState :: "session \<Rightarrow> session" where
  "showImageLoadingState s = s\<lparr>pasteAreaLoading := True\<rparr>"

definition hideImageLoadingState :: "session \<Rightarrow> session" where
  "hideImageLoadingState s = s\<lparr>pasteAreaLoading := False\<rparr>"

definition maxSize :: nat where
  "maxSize = 10 * 1024 * 1024"

text \<open>
  \<^verbatim>\<open>handleImageFile\<close> up to the call of \<^verbatim>\<open>reader.readAsDataURL(file)\<close>: the two checks in
  the order of the source, then a new reader joins the pending ones.
\<close>

definition handleImageFile :: "image_file \<Rightarrow> session \<Rightarrow> session" where
  "handleImageFile f s =
     (if \<not> startsWith (ftype f) ''image/'' then showError InvalidImageFile s
      else if fsize f > maxSize
        then showError (FileTooLarge (formatFileSize (fsize f))) s
      else (showImageLoadingState s)\<lparr>readers := readers s @ [f]\<rparr>)"

definition showOriginalImage :: "image_file \<Rightarrow> session \<Rightarrow> session" where
  "showOriginalImage f s =
     hideImageLoadingState
       (s\<lparr>pasteArea := False, originalImageContainer := True,
          originalImage := currentImageData s,
          imageInfo := Some (fname f, formatFileSize (fsize f), getImageFormat (ftype f))\<rparr>)"

definition showProcessingState :: "session \<Rightarrow> session" where
  "showProcessingState s = hideAlerts s"

definition hideProcessingState :: "session \<Rightarrow> session" where
  "hideProcessingState s = hideImageLoadingState s"

text \<open>
  \<^verbatim>\<open>processImage\<close>: \<^verbatim>\<open>!currentImageData\<close> holds for \<^verbatim>\<open>null\<close> and for the empty string.
  Otherwise the processing panel is shown and one request is issued.
\<close>

definition processImage :: "session \<Rightarrow> session" where
  "processImage s =
     (case currentImageData s of
        None \<Rightarrow> showError NoImageSelected s
      | Some d \<Rightarrow>
          if d = [] then showError NoImageSelected s
          else let s1 = showProcessingState
                          (s\<lparr>noImagePlaceholder := False, processingContainer := True\<rparr>);
                   r = \<lparr>url = ''/process-image'', http_method = ''POST'', img = d,
                        timeout_ms = 60000\<rparr>
               in s1\<lparr>inflight := inflight s1 @ [r], sent := sent s1 @ [r]\<rparr>)"

text \<open>
  The \<^verbatim>\<open>onload\<close> and \<^verbatim>\<open>onerror\<close> closures of the reader that \<^verbatim>\<open>handleImageFile\<close> starts.
  \<open>store_original\<close> is \<^verbatim>\<open>onload\<close> up to the call of \<^verbatim>\<open>processImage\<close>.
\<close>

definition store_original :: "image_file \<Rightarrow> session \<Rightarrow> session" where
  "store_original f s =
     showOriginalImage f
       (hideAlerts (s\<lparr>currentImageData := Some (readAsDataURL (ftype f) (fdata f))\<rparr>))"

definition reader_onload :: "image_file \<Rightarrow> session \<Rightarrow> session" where
  "reader_onload f s = processImage (store_original f s)"

definition reader_onerror :: "session \<Rightarrow> session" where
  "reader_onerror s = hideImageLoadingState (showError FileReadFailed s)"

text \<open>
  The callbacks of the request. \<^verbatim>\<open>success\<close> stores the blob and starts a reader on it;
  that reader's \<^verbatim>\<open>onload\<close> stores the base64 form and sets a timer; the timer (800 ms,
  then a fade-out of 300 ms) swaps the processing panel for the result panel, reading
  \<^verbatim>\<open>processedImageBase64\<close> at that moment. \<^verbatim>\<open>complete\<close> runs after either callback.
\<close>

definition ajax_success :: "blob \<Rightarrow> session \<Rightarrow> session" where
  "ajax_success data s =
     hideProcessingState
       (s\<lparr>processedImageBlob := Some data, blobReaders := blobReaders s @ [data]\<rparr>)"

definition blob_reader_onload :: "blob \<Rightarrow> session \<Rightarrow> session" where
  "blob_reader_onload data s =
     s\<lparr>processedImageBase64 := Some (readAsDataURL (btype data) (bdata data)),
       displayTimers := Suc (displayTimers s)\<rparr>"

definition display_result :: "session \<Rightarrow> session" where
  "display_result s =
     s\<lparr>processingContainer := False, processedImage := processedImageBase64 s,
       processedImageContainer := True\<rparr>"

definition processing_error_message :: "xhr \<Rightarrow> string \<Rightarrow> message" where
  "processing_error_message x status =
     (if status = ''timeout'' then RequestTimedOut
      else if xhr_status x = 413 then PayloadTooLarge
      else if xhr_status x = 400 then
        (case xhr_body x of
           NotJson \<Rightarrow> UnsupportedOrCorrupt
         | JsonDetail None \<Rightarrow> ProcessingFailed
         | JsonDetail (Some d) \<Rightarrow> if d = [] then ProcessingFailed else ServerDetail d)
      else if xhr_status x = 0 then NetworkError
      else if xhr_status x \<ge> 500 then ServerUnavailable
      else ProcessingFailed)"

definition handleProcessingError :: "xhr \<Rightarrow> string \<Rightarrow> session \<Rightarrow> session" where
  "handleProcessingError x status s = showError (processing_error_message x status) s"

definition ajax_error :: "xhr \<Rightarrow> string \<Rightarrow> session \<Rightarrow> session" where
  "ajax_error x status s =
     hideProcessingState
       (handleProcessingError x status
          (s\<lparr>processingContainer := False, processedImageContainer := False,
             noImagePlaceholder := True\<rparr>))"

definition resetTool :: "session \<Rightarrow> session" where
  "resetTool s =
     hideImageLoadingState
       (hideAlerts
          (s\<lparr>currentImageData := None, processedImageBlob := None,
             processedImageBase64 := None, pasteArea := True,
             originalImageContainer := False, processingContainer := False,
             processedImageContainer := False, noImagePlaceholder := True\<rparr>))"

subsection \<open>The listeners of \<^verbatim>\<open>initializeEventListeners\<close>\<close>

text \<open>
  A clipboard item has a type and, through \<^verbatim>\<open>getAsFile()\<close>, a file or \<^verbatim>\<open>null\<close>. The paste
  listener takes the first item whose type contains \<^verbatim>\<open>image\<close>; reading \<^verbatim>\<open>.type\<close> of \<^verbatim>\<open>null\<close>
  aborts the listener with the session as it was.
\<close>

record clip_item =
  item_type :: string
  item_file :: "image_file option"

fun on_paste :: "clip_item list \<Rightarrow> session \<Rightarrow> session" where
  "on_paste [] s = s"
| "on_paste (it # its) s =
     (if contains (item_type it) ''image''
      then (case item_file it of None \<Rightarrow> s | Some f \<Rightarrow> handleImageFile f s)
      else on_paste its s)"

definition on_change :: "image_file option \<Rightarrow> session \<Rightarrow> session" where
  "on_change picked s = (case picked of None \<Rightarrow> s | Some f \<Rightarrow> handleImageFile f s)"

definition on_drop :: "image_file list \<Rightarrow> session \<Rightarrow> session" where
  "on_drop files s =
     (case files of
        [] \<Rightarrow> showError InvalidDroppedFile s
      | f # _ \<Rightarrow>
          if startsWith (ftype f) ''image/'' then handleImageFile f s
          else showError InvalidDroppedFile s)"

subsection \<open>The event loop\<close>

text \<open>
  One event is one callback run to completion. A callback of a reader, a request or a
  timer can only run while that reader, request or timer is pending; \<open>fire\<close> returns
  \<open>None\<close> otherwise. Readers and requests are named by their position among the pending.
  The drop listener is attached to \<^verbatim>\<open>#pasteArea\<close> and can only run while that area is shown;
  the paste listener and the reset shortcut are attached to the document, and the file
  input is opened from the upload area or from the button beside the original.
\<close>

datatype event =
    Paste "clip_item list"
  | Change "image_file option"
  | Drop "image_file list"
  | Reset
  | ReaderLoad nat
  | ReaderError nat
  | AjaxSuccess nat blob
  | AjaxError nat xhr string
  | BlobReaderLoad nat
  | DisplayResult
  | ErrorAlertFade

definition remove_nth :: "nat \<Rightarrow> 'a list \<Rightarrow> 'a list" where
  "remove_nth i xs = take i xs @ drop (Suc i) xs"

fun fire :: "event \<Rightarrow> session \<Rightarrow> session option" where
  "fire (Paste items) s = Some (on_paste items s)"
| "fire (Change picked) s = Some (on_change picked s)"
| "fire (Drop files) s = (if pasteArea s then Some (on_drop files s) else None)"
| "fire Reset s = Some (resetTool s)"
| "fire (ReaderLoad i) s =
     (if i < length (readers s)
      then Some (reader_onload (readers s ! i) (s\<lparr>readers := remove_nth i (readers s)\<rparr>))
      else None)"
| "fire (ReaderError i) s =
     (if i < length (readers s)
      then Some (reader_onerror (s\<lparr>readers := remove_nth i (readers s)\<rparr>))
      else None)"
| "fire (AjaxSuccess i data) s =
     (if i < length (inflight s)
      then Some (ajax_success data (s\<lparr>inflight := remove_nth i (inflight s)\<rparr>))
      else None)"
| "fire (AjaxError i x status) s =
     (if i < length (inflight s)
      then Some (ajax_error x status (s\<lparr>inflight := remove_nth i (inflight s)\<rparr>))
      else None)"
| "fire (BlobReaderLoad i) s =
     (if i < length (blobReaders s)
      then Some (blob_reader_onload (blobReaders s ! i)
                   (s\<lparr>blobReaders := remove_nth i (blobReaders s)\<rparr>))
      else None)"
| "fire DisplayResult s =
     (if 0 < displayTimers s
      then Some (display_result (s\<lparr>displayTimers := displayTimers s - 1\<rparr>))
      else None)"
| "fire ErrorAlertFade s =
     (if 0 < alertTimers s
      then Some (s\<lparr>errorAlert := False, alertTimers := alertTimers s - 1\<rparr>)
      else None)"

fun run :: "event list \<Rightarrow> session \<Rightarrow> session option" where
  "run [] s = Some s"
| "run (e # es) s = (case fire e s of None \<Rightarrow> None | Some s' \<Rightarrow> run es s')"

subsection \<open>The phase of a session\<close>

text \<open>
  The script has no phase variable; the phase is what the page shows. No original means
  \<open>Idle\<close>. With an original, the processing panel means \<open>Processing\<close>, else the result
  panel means \<open>Result\<close>, else a visible error alert means \<open>Failed\<close>, and \<open>Loaded\<close> is what
  remains. The error of the session is the message of the alert while it is visible.
  When the alert has faded out, a failed session shows its original beside the empty
  result placeholder, which is how \<open>Loaded\<close> looks.
\<close>

datatype phase = Idle | Loaded | Processing | Result | Failed

definition phase_of :: "session \<Rightarrow> phase" where
  "phase_of s =
     (if currentImageData s = None then Idle
      else if processingContainer s then Processing
      else if processedImageContainer s then Result
      else if errorAlert s then Failed
      else Loaded)"

definition shown_error :: "session \<Rightarrow> message option" where
  "shown_error s = (if errorAlert s then errorMessage s else None)"

subsection \<open>Clipboard export\<close>

text \<open>
  What the browser decides: whether \<^verbatim>\<open>navigator.clipboard.write\<close> exists, what \<^verbatim>\<open>fetch(src)\<close>
  followed by \<^verbatim>\<open>response.blob()\<close> yields (\<open>None\<close> when either rejects), how the canvas
  re-encodes a blob, and which clipboard items \<^verbatim>\<open>navigator.clipboard.write\<close> accepts.
\<close>

datatype png_result = LoadFailed | EncodeFailed | Encoded string

record platform =
  clipboard_available :: bool
  fetch_blob :: "string \<Rightarrow> blob option"
  to_png :: "blob \<Rightarrow> png_result"
  clipboard_accepts :: "string \<Rightarrow> blob \<Rightarrow> bool"

datatype copy_error = FetchFailed | ImageLoadFailed | PngConversionFailed | AllFormatsFailed

text \<open>
  The calls that an export makes, in order: \<open>Converted b ok\<close> is a call of
  \<^verbatim>\<open>convertImageToPNG(b)\<close>, \<open>Written m b ok\<close> a call of \<^verbatim>\<open>navigator.clipboard.write\<close> with the
  item \<^verbatim>\<open>{[m]: b}\<close>; \<open>ok\<close> tells whether the call resolved.
\<close>

datatype effect = Converted blob bool | Written string blob bool

text \<open>\<^verbatim>\<open>convertImageToPNG\<close>: \<^verbatim>\<open>canvas.toBlob(..., 'image/png', 1.0)\<close> or one of the two rejections.\<close>

definition convertImageToPNG :: "platform \<Rightarrow> blob \<Rightarrow> copy_error + blob" where
  "convertImageToPNG p b =
     (case to_png p b of
        LoadFailed \<Rightarrow> Inl ImageLoadFailed
      | EncodeFailed \<Rightarrow> Inl PngConversionFailed
      | Encoded d \<Rightarrow> Inr \<lparr>btype = ''image/png'', bdata = d\<rparr>)"

definition supportedTypes :: "string list" where
  "supportedTypes = [''image/png'', ''image/jpeg'', ''image/webp'', ''image/gif'']"

text \<open>
  The three stages of \<^verbatim>\<open>writeToClipboardWithFallback(blob, mimeType)\<close>; each returns the
  calls it made and whether a write was accepted (the function then returns). The last
  loop skips the requested type and PNG, and every type other than the blob's own.
\<close>

definition png_attempt :: "platform \<Rightarrow> blob \<Rightarrow> string \<Rightarrow> effect list \<times> bool" where
  "png_attempt p b mimeType =
     (if mimeType \<noteq> ''image/png'' then
        (case convertImageToPNG p b of
           Inl e \<Rightarrow> ([Converted b False], False)
         | Inr pngBlob \<Rightarrow>
             if clipboard_accepts p ''image/png'' pngBlob
             then ([Converted b True, Written ''image/png'' pngBlob True], True)
             else ([Converted b True, Written ''image/png'' pngBlob False], False))
      else ([], False))"

fun remaining_attempts ::
  "platform \<Rightarrow> blob \<Rightarrow> string \<Rightarrow> string list \<Rightarrow> effect list \<times> bool" where
  "remaining_attempts p b mimeType [] = ([], False)"
| "remaining_attempts p b mimeType (t # ts) =
     (if t = mimeType \<or> t = ''image/png'' then remaining_attempts p b mimeType ts
      else if t \<noteq> btype b then remaining_attempts p b mimeType ts
      else if clipboard_accepts p t b then ([Written t b True], True)
      else (case remaining_attempts p b mimeType ts of
              (tr, ok) \<Rightarrow> (Written t b False # tr, ok)))"

definition writeToClipboardWithFallback ::
  "platform \<Rightarrow> blob \<Rightarrow> string \<Rightarrow> effect list \<times> bool" where
  "writeToClipboardWithFallback p b mimeType =
     (if clipboard_accepts p mimeType b then ([Written mimeType b True], True)
      else (case png_attempt p b mimeType of
              (tr2, ok2) \<Rightarrow>
                if ok2 then (Written mimeType b False # tr2, True)
                else (case remaining_attempts p b mimeType supportedTypes of
                        (tr3, ok3) \<Rightarrow> (Written mimeType b False # tr2 @ tr3, ok3))))"

text \<open>
  \<^verbatim>\<open>new Date().toISOString().slice(0, 19).replace(/[:.]/g, '-')\<close>, the ISO string given;
  \<^verbatim>\<open>finalMimeType.split('/')[1] || 'png'\<close>; and the prefix chosen by \<^verbatim>\<open>imageType\<close>.
\<close>

definition timestamp_text :: "string \<Rightarrow> string" where
  "timestamp_text isoString =
     map (\<lambda>c. if c = CHR '':'' \<or> c = CHR ''.'' then CHR ''-'' else c) (take 19 isoString)"

definition extension_of :: "string \<Rightarrow> string" where
  "extension_of mimeType =
     (case split_slash mimeType of
        _ # e # _ \<Rightarrow> if e = [] then ''png'' else e
      | _ \<Rightarrow> ''png'')"

definition name_prefix :: "string \<Rightarrow> string" where
  "name_prefix imageType =
     (if imageType = ''processed'' then ''docuscan_enhanced''
      else if imageType = ''original'' then ''docuscan_original''
      else ''docuscan_image'')"

text \<open>
  \<^verbatim>\<open>copyImageAsFile(src, imageType)\<close>. The result is what the user is told: nothing can be
  copied here, the file name of the success toast, or a failure (the \<^verbatim>\<open>catch\<close> block turns
  the error into a toast). A JPEG blob is converted to PNG before anything is written,
  and the file name is fixed before \<^verbatim>\<open>writeToClipboardWithFallback\<close> is called.
\<close>

datatype copy_outcome = NotSupported | Copied string | CopyFailed copy_error

definition copyImageAsFile ::
  "platform \<Rightarrow> string \<Rightarrow> string \<Rightarrow> string \<Rightarrow> effect list \<times> copy_outcome" where
  "copyImageAsFile p src imageType isoString =
     (if \<not> clipboard_available p then ([], NotSupported)
      else case fetch_blob p src of
        None \<Rightarrow> ([], CopyFailed FetchFailed)
      | Some b \<Rightarrow>
          (case (if btype b = ''image/jpeg'' \<or> btype b = ''image/jpg''
                 then (case convertImageToPNG p b of
                         Inl e \<Rightarrow> Inl e
                       | Inr pngBlob \<Rightarrow> Inr ([Converted b True], pngBlob, ''image/png''))
                 else Inr ([], b, btype b)) of
             Inl e \<Rightarrow> ([Converted b False], CopyFailed e)
           | Inr (tr0, finalBlob, finalMimeType) \<Rightarrow>
               let filename = name_prefix imageType @ ''_'' @ timestamp_text isoString @ ''.'' @
                              extension_of finalMimeType
               in (case writeToClipboardWithFallback p finalBlob finalMimeType of
                     (tr, ok) \<Rightarrow>
                       (tr0 @ tr, if ok then Copied filename else CopyFailed AllFormatsFailed))))"

text \<open>The type of the item that the clipboard accepted, if any.\<close>

fun written_type :: "effect list \<Rightarrow> string option" where
  "written_type [] = None"
| "written_type (Written m b True # tr) = Some m"
| "written_type (e # tr) = written_type tr"

text \<open>The types of the writes attempted, in order.\<close>

fun attempted_types :: "effect list \<Rightarrow> string list" where
  "attempted_types [] = []"
| "attempted_types (Written m b ok # tr) = m # attempted_types tr"
| "attempted_types (Converted b ok # tr) = attempted_types tr"

subsection \<open>Sample inputs\<close>

definition photo_a :: image_file where
  "photo_a = \<lparr>ftype = ''image/png'', fname = ''a.png'', fsize = 2097152, fdata = ''QQ==''\<rparr>"

definition photo_b :: image_file where
  "photo_b = \<lparr>ftype = ''image/jpeg'', fname = ''b.jpg'', fsize = 3000, fdata = ''Qg==''\<rparr>"

definition enhanced_a :: blob where
  "enhanced_a = \<lparr>btype = ''image/jpeg'', bdata = ''YQ==''\<rparr>"

definition notes_txt :: image_file where
  "notes_txt = \<lparr>ftype = ''text/plain'', fname = ''notes.txt'', fsize = 11534336,
     fdata = ''bm90ZXM=''\<rparr>"

definition server_down :: xhr where
  "server_down = \<lparr>xhr_status = 503, xhr_body = NotJson\<rparr>"

definition timed_out :: xhr where
  "timed_out = \<lparr>xhr_status = 0, xhr_body = NotJson\<rparr>"

text \<open>A browser whose clipboard takes PNG items only, and one that takes every item.\<close>

definition png_only :: "blob \<Rightarrow> platform" where
  "png_only b = \<lparr>clipboard_available = True, fetch_blob = (\<lambda>src. Some b),
     to_png = (\<lambda>x. Encoded ''iVBORw==''),
     clipboard_accepts = (\<lambda>m x. m = ''image/png'')\<rparr>"

definition any_type :: "blob \<Rightarrow> platform" where
  "any_type b = \<lparr>clipboard_available = True, fetch_blob = (\<lambda>src. Some b),
     to_png = (\<lambda>x. Encoded ''iVBORw==''),
     clipboard_accepts = (\<lambda>m x. True)\<rparr>"

text \<open>
  The session reached from the initial one by a list of events (the initial one if an event
  of the list cannot fire), and three pieces of a scenario: photo A picked and read,
  photo B pasted and read, and the first pending response arriving for display.
\<close>

definition after :: "event list \<Rightarrow> session" where
  "after evs = (case run evs initial of None \<Rightarrow> initial | Some s \<Rightarrow> s)"

definition acquire_a :: "event list" where
  "acquire_a = [Change (Some photo_a), ReaderLoad 0]"

definition pasted_photo_b :: clip_item where
  "pasted_photo_b = \<lparr>item_type = ''image/jpeg'', item_file = Some photo_b\<rparr>"

definition acquire_b :: "event list" where
  "acquire_b = [Paste [pasted_photo_b], ReaderLoad 0]"

definition show_result_a :: "event list" where
  "show_result_a = [AjaxSuccess 0 enhanced_a, BlobReaderLoad 0, DisplayResult]"

text \<open>
  A JPEG of 12 MiB, a PNG of one tebibyte, a pasted text file, and a WebP blob.
\<close>

definition big_jpeg :: image_file where
  "big_jpeg = \<lparr>ftype = ''image/jpeg'', fname = ''big.jpg'', fsize = 12582912,
     fdata = ''Qg==''\<rparr>"

definition huge_png :: image_file where
  "huge_png = \<lparr>ftype = ''image/png'', fname = ''huge.png'', fsize = 1099511627776,
     fdata = ''QQ==''\<rparr>"

definition pasted_notes :: clip_item where
  "pasted_notes = \<lparr>item_type = ''text/plain'', item_file = Some notes_txt\<rparr>"

definition webp_image :: blob where
  "webp_image = \<lparr>btype = ''image/webp'', bdata = ''UklGRg==''\<rparr>"

subsection \<open>Evaluation rules and the logarithm\<close>

lemma show_nat_small: "n < 10 \<Longrightarrow> show_nat n = [digit_char n]"
  by (simp add: show_nat.simps)

lemma show_nat_large:
  "10 \<le> n \<Longrightarrow> show_nat n = show_nat (n div 10) @ [digit_char (n mod 10)]"
  by (subst show_nat.simps) simp

lemma floor_log1024_small: "n < 1024 \<Longrightarrow> floor_log1024 n = 0"
  by (simp add: floor_log1024.simps)

lemma floor_log1024_large:
  "1024 \<le> n \<Longrightarrow> floor_log1024 n = Suc (floor_log1024 (n div 1024))"
  by (subst floor_log1024.simps) simp

lemma floor_log1024_bounds:
  "0 < n \<Longrightarrow> 1024 ^ floor_log1024 n \<le> n \<and> n < 1024 ^ Suc (floor_log1024 n)"
proof (induction n rule: floor_log1024.induct)
  case (1 n)
  show ?case
  proof (cases "n < 1024")
    case True
    with "1.prems" show ?thesis by (simp add: floor_log1024_small)
  next
    case False
    then have big: "1024 \<le> n" by simp
    then have pos: "0 < n div 1024" by (simp add: div_greater_zero_iff)
    from "1.IH" [OF False pos]
    have lo: "1024 ^ floor_log1024 (n div 1024) \<le> n div 1024"
      and hi: "n div 1024 < 1024 ^ Suc (floor_log1024 (n div 1024))" by simp_all
    have "1024 * 1024 ^ floor_log1024 (n div 1024) \<le> 1024 * (n div 1024)"
      using lo by simp
    also have "\<dots> \<le> n" by simp
    finally have a: "1024 ^ floor_log1024 n \<le> n"
      by (simp add: floor_log1024_large [OF big])
    have "Suc (n div 1024) \<le> 1024 ^ Suc (floor_log1024 (n div 1024))"
      using hi by simp
    then have "1024 * Suc (n div 1024) \<le> 1024 * 1024 ^ Suc (floor_log1024 (n div 1024))"
      by (rule mult_le_mono2)
    moreover have "n < 1024 * Suc (n div 1024)"
      using dividend_less_times_div [of 1024 n] by simp
    ultimately have b: "n < 1024 ^ Suc (floor_log1024 n)"
      by (simp add: floor_log1024_large [OF big])
    from a b show ?thesis ..
  qed
qed

lemma floor_log1024_real:
  assumes "0 < n"
  shows "int (floor_log1024 n) = \<lfloor>ln (real n) / ln 1024\<rfloor>"
proof -
  from floor_log1024_bounds [OF assms]
  have "(1024::nat) ^ floor_log1024 n \<le> n" and "n < (1024::nat) ^ (floor_log1024 n + 1)"
    by simp_all
  then have "\<lfloor>log (real (1024::nat)) (real n)\<rfloor> = int (floor_log1024 n)"
    by (rule floor_log_nat_eq_if) simp
  then show ?thesis by (simp add: log_def)
qed

lemma floor_log1024_ge_iff:
  assumes "0 < n"
  shows "k \<le> floor_log1024 n \<longleftrightarrow> 1024 ^ k \<le> n"
proof
  assume "k \<le> floor_log1024 n"
  then have "(1024::nat) ^ k \<le> 1024 ^ floor_log1024 n"
    by (simp add: power_increasing)
  also have "\<dots> \<le> n"
    using floor_log1024_bounds [OF assms] by blast
  finally show "1024 ^ k \<le> n" .
next
  assume le: "1024 ^ k \<le> n"
  show "k \<le> floor_log1024 n"
  proof (rule ccontr)
    assume "\<not> k \<le> floor_log1024 n"
    then have "Suc (floor_log1024 n) \<le> k" by simp
    then have "(1024::nat) ^ Suc (floor_log1024 n) \<le> 1024 ^ k"
      by (rule power_increasing) simp
    with le floor_log1024_bounds [OF assms] show False by simp
  qed
qed

lemma log_index_exact: "bytes < 1024 ^ 5 - 3 \<Longrightarrow> log_index bytes = floor_log1024 bytes"
  by (simp add: log_index_def)


lemmas eval_size = formatFileSize_def Let_def log_index_def floor_log1024_small
  floor_log1024_large
  toFixed1_def number_text_def show_nat_small show_nat_large digit_char_def
  sizes_at_def sizes_def

subsection \<open>Evaluation of the handlers\<close>

lemmas eval_handlers = initial_def showError_def hideAlerts_def showImageLoadingState_def
  hideImageLoadingState_def maxSize_def handleImageFile_def showOriginalImage_def
  showProcessingState_def hideProcessingState_def processImage_def store_original_def
  reader_onload_def reader_onerror_def ajax_success_def blob_reader_onload_def
  display_result_def processing_error_message_def handleProcessingError_def
  ajax_error_def resetTool_def on_change_def on_drop_def remove_nth_def
  startsWith_def readAsDataURL_def Let_def

lemmas eval_samples = after_def acquire_a_def acquire_b_def show_result_a_def
  pasted_photo_b_def
  photo_a_def photo_b_def enhanced_a_def server_down_def timed_out_def notes_txt_def
  big_jpeg_def huge_png_def pasted_notes_def webp_image_def

subsection \<open>Which events issue requests\<close>

lemma handleImageFile_cases:
  "handleImageFile f s = showError InvalidImageFile s \<or>
   handleImageFile f s = showError (FileTooLarge (formatFileSize (fsize f))) s \<or>
   handleImageFile f s = (showImageLoadingState s)\<lparr>readers := readers s @ [f]\<rparr>"
  by (simp add: handleImageFile_def)

lemma handleImageFile_sent:
  "sent (handleImageFile f s) = sent s \<and> inflight (handleImageFile f s) = inflight s"
  by (simp add: handleImageFile_def showError_def showImageLoadingState_def)

lemma on_paste_cases:
  "on_paste items s = s \<or> (\<exists>f. on_paste items s = handleImageFile f s)"
  by (induction items) (auto split: option.splits)

lemma on_paste_sent:
  "sent (on_paste items s) = sent s \<and> inflight (on_paste items s) = inflight s"
  using on_paste_cases [of items s] handleImageFile_sent by auto

lemma on_drop_sent:
  "sent (on_drop dropped s) = sent s \<and> inflight (on_drop dropped s) = inflight s"
  by (simp add: on_drop_def showError_def handleImageFile_sent split: list.splits)

lemma on_change_sent:
  "sent (on_change picked s) = sent s \<and> inflight (on_change picked s) = inflight s"
  by (simp add: on_change_def handleImageFile_sent split: option.splits)

lemma reader_onload_sent:
  "sent (reader_onload f s) =
     sent s @ [\<lparr>url = ''/process-image'', http_method = ''POST'',
                img = readAsDataURL (ftype f) (fdata f), timeout_ms = 60000\<rparr>]"
  by (simp add: reader_onload_def store_original_def processImage_def showOriginalImage_def
      hideAlerts_def hideImageLoadingState_def showProcessingState_def readAsDataURL_def
      Let_def)

lemma fire_sent:
  assumes "fire e s = Some s'"
  shows "sent s' =
     (case e of
        ReaderLoad i \<Rightarrow>
          sent s @ [\<lparr>url = ''/process-image'', http_method = ''POST'',
                     img = readAsDataURL (ftype (readers s ! i)) (fdata (readers s ! i)),
                     timeout_ms = 60000\<rparr>]
      | _ \<Rightarrow> sent s)"
proof (cases e)
  case (Paste items)
  with assms show ?thesis by (auto simp: on_paste_sent)
next
  case (Change picked)
  with assms show ?thesis by (auto simp: on_change_sent)
next
  case (Drop dropped)
  with assms show ?thesis by (auto simp: on_drop_sent split: if_splits)
next
  case Reset
  with assms show ?thesis
    by (auto simp: resetTool_def hideAlerts_def hideImageLoadingState_def)
next
  case (ReaderLoad i)
  with assms show ?thesis by (auto simp: reader_onload_sent split: if_splits)
next
  case (ReaderError i)
  with assms show ?thesis
    by (auto simp: reader_onerror_def showError_def hideImageLoadingState_def
        split: if_splits)
next
  case (AjaxSuccess i data)
  with assms show ?thesis
    by (auto simp: ajax_success_def hideProcessingState_def hideImageLoadingState_def
        split: if_splits)
next
  case (AjaxError i x status)
  with assms show ?thesis
    by (auto simp: ajax_error_def handleProcessingError_def showError_def
        hideProcessingState_def hideImageLoadingState_def split: if_splits)
next
  case (BlobReaderLoad i)
  with assms show ?thesis by (auto simp: blob_reader_onload_def split: if_splits)
next
  case DisplayResult
  with assms show ?thesis by (auto simp: display_result_def split: if_splits)
next
  case ErrorAlertFade
  with assms show ?thesis by (auto split: if_splits)
qed

lemma fire_timeouts:
  assumes "fire e s = Some s'" and "\<forall>r\<in>set (sent s). timeout_ms r = 60000"
  shows "\<forall>r\<in>set (sent s'). timeout_ms r = 60000"
  using fire_sent [OF assms(1)] assms(2) by (cases e) auto

lemma run_timeouts:
  "run evs s = Some s' \<Longrightarrow> \<forall>r\<in>set (sent s). timeout_ms r = 60000 \<Longrightarrow>
   \<forall>r\<in>set (sent s'). timeout_ms r = 60000"
proof (induction evs arbitrary: s)
  case Nil
  then show ?case by simp
next
  case (Cons e evs)
  from Cons.prems(1) obtain s1 where f: "fire e s = Some s1" and r: "run evs s1 = Some s'"
    by (auto split: option.splits)
  from fire_timeouts [OF f Cons.prems(2)] Cons.IH [OF r] show ?case by blast
qed


lemma set_remove_nth: "set (remove_nth i xs) \<subseteq> set xs"
  by (auto simp: remove_nth_def dest: in_set_takeD in_set_dropD)

lemma remove_nth_last: "remove_nth (length xs) (xs @ [x]) = xs"
  by (simp add: remove_nth_def)

lemma reader_onload_inflight:
  "inflight (reader_onload f s) =
     inflight s @ [\<lparr>url = ''/process-image'', http_method = ''POST'',
                img = readAsDataURL (ftype f) (fdata f), timeout_ms = 60000\<rparr>]"
  by (simp add: reader_onload_def store_original_def processImage_def showOriginalImage_def
      hideAlerts_def hideImageLoadingState_def showProcessingState_def readAsDataURL_def
      Let_def)

lemma fire_inflight_timeouts:
  assumes "fire e s = Some s'" and "\<forall>r\<in>set (inflight s). timeout_ms r = 60000"
  shows "\<forall>r\<in>set (inflight s'). timeout_ms r = 60000"
proof (cases e)
  case (Paste items)
  with assms show ?thesis by (auto simp: on_paste_sent)
next
  case (Change picked)
  with assms show ?thesis by (auto simp: on_change_sent)
next
  case (Drop dropped)
  with assms show ?thesis by (auto simp: on_drop_sent split: if_splits)
next
  case Reset
  with assms show ?thesis
    by (auto simp: resetTool_def hideAlerts_def hideImageLoadingState_def)
next
  case (ReaderLoad i)
  with assms show ?thesis by (auto simp: reader_onload_inflight split: if_splits)
next
  case (ReaderError i)
  with assms show ?thesis
    by (auto simp: reader_onerror_def showError_def hideImageLoadingState_def
        split: if_splits)
next
  case (AjaxSuccess i data)
  with assms set_remove_nth [of i "inflight s"] show ?thesis
    by (auto simp: ajax_success_def hideProcessingState_def hideImageLoadingState_def
        split: if_splits)
next
  case (AjaxError i x status)
  with assms set_remove_nth [of i "inflight s"] show ?thesis
    by (auto simp: ajax_error_def handleProcessingError_def showError_def
        hideProcessingState_def hideImageLoadingState_def split: if_splits)
next
  case (BlobReaderLoad i)
  with assms show ?thesis by (auto simp: blob_reader_onload_def split: if_splits)
next
  case DisplayResult
  with assms show ?thesis by (auto simp: display_result_def split: if_splits)
next
  case ErrorAlertFade
  with assms show ?thesis by (auto split: if_splits)
qed

lemma run_inflight_timeouts:
  "run evs s = Some s' \<Longrightarrow> \<forall>r\<in>set (inflight s). timeout_ms r = 60000 \<Longrightarrow>
   \<forall>r\<in>set (inflight s'). timeout_ms r = 60000"
proof (induction evs arbitrary: s)
  case Nil
  then show ?case by simp
next
  case (Cons e evs)
  from Cons.prems(1) obtain s1 where f: "fire e s = Some s1" and r: "run evs s1 = Some s'"
    by (auto split: option.splits)
  from fire_inflight_timeouts [OF f Cons.prems(2)] Cons.IH [OF r] show ?case by blast
qed

lemma fire_sent_unchanged:
  assumes "fire e s = Some s'" and "\<forall>j. e \<noteq> ReaderLoad j"
  shows "sent s' = sent s"
  using fire_sent [OF assms(1)] assms(2) by (cases e) auto

subsection \<open>What an error alert leaves alone\<close>

lemma showError_keeps:
  "currentImageData (showError m s) = currentImageData s \<and>
   processedImageBlob (showError m s) = processedImageBlob s \<and>
   processedImageBase64 (showError m s) = processedImageBase64 s \<and>
   readers (showError m s) = readers s \<and>
   inflight (showError m s) = inflight s \<and>
   sent (showError m s) = sent s \<and>
   blobReaders (showError m s) = blobReaders s \<and>
   shown_error (showError m s) = Some m"
  by (simp add: showError_def shown_error_def)

lemma showError_phase:
  "phase_of s \<noteq> Loaded \<Longrightarrow> phase_of (showError m s) = phase_of s"
  by (auto simp: showError_def phase_of_def split: if_splits)

subsection \<open>The formatted size of a rejected file\<close>

lemma number_text_digits:
  "number_text t =
     show_nat (t div 10) @ (if t mod 10 = 0 then [] else [CHR ''.'', digit_char (t mod 10)])"
  by (simp add: number_text_def show_nat_small)

lemma formatFileSize_MB_GB:
  assumes "maxSize < n" and "n < 1024 ^ 4"
  shows "floor_log1024 n = 2 \<or> floor_log1024 n = 3"
proof -
  from assms(1) have pos: "0 < n" and two: "1024 ^ 2 \<le> n" by (simp_all add: maxSize_def)
  from two have "2 \<le> floor_log1024 n"
    using floor_log1024_ge_iff [OF pos, of 2] by simp
  moreover from assms(2) have "\<not> 4 \<le> floor_log1024 n"
    using floor_log1024_ge_iff [OF pos, of 4] by simp
  ultimately show ?thesis by arith
qed

subsection \<open>Paste events without an image item\<close>


subsection \<open>The calls of an export\<close>

lemma remaining_attempts_no_conversion:
  "Converted c ok \<notin> set (fst (remaining_attempts p b m ts))"
  by (induction ts) (auto split: prod.splits)

lemma png_attempt_conversion:
  "(\<exists>ok. Converted b ok \<in> set (fst (png_attempt p b m))) \<longleftrightarrow> m \<noteq> ''image/png''"
  by (auto simp: png_attempt_def split: sum.splits if_splits)

lemma writeToClipboard_shape:
  "\<exists>rest. fst (writeToClipboardWithFallback p b m) =
            Written m b (clipboard_accepts p m b) # rest \<and>
          (clipboard_accepts p m b \<longrightarrow> rest = []) \<and>
          ((\<exists>ok. Converted b ok \<in> set rest) \<longleftrightarrow>
             \<not> clipboard_accepts p m b \<and> m \<noteq> ''image/png'')"
proof (cases "clipboard_accepts p m b")
  case True
  then show ?thesis by (simp add: writeToClipboardWithFallback_def)
next
  case False
  obtain tr2 ok2 where p2: "png_attempt p b m = (tr2, ok2)" by (cases "png_attempt p b m")
  obtain tr3 ok3 where p3: "remaining_attempts p b m supportedTypes = (tr3, ok3)"
    by (cases "remaining_attempts p b m supportedTypes")
  have c2: "(\<exists>ok. Converted b ok \<in> set tr2) \<longleftrightarrow> m \<noteq> ''image/png''"
    using png_attempt_conversion [of b p m] p2 by simp
  have c3: "\<And>ok. Converted b ok \<notin> set tr3"
    using remaining_attempts_no_conversion [of b _ p b m supportedTypes] p3 by simp
  show ?thesis
  proof (cases ok2)
    case True
    with False p2 c2 show ?thesis by (simp add: writeToClipboardWithFallback_def)
  next
    case no: False
    with False p2 p3 have
      "fst (writeToClipboardWithFallback p b m) = Written m b False # tr2 @ tr3"
      by (simp add: writeToClipboardWithFallback_def)
    with False c2 c3 show ?thesis by auto
  qed
qed


lemmas eval_export = copyImageAsFile_def writeToClipboardWithFallback_def png_attempt_def
  convertImageToPNG_def supportedTypes_def timestamp_text_def extension_of_def
  name_prefix_def png_only_def any_type_def

lemma write_png_blob:
  assumes "btype pngBlob = ''image/png''"
  shows "writeToClipboardWithFallback p pngBlob ''image/png'' =
           ([Written ''image/png'' pngBlob (clipboard_accepts p ''image/png'' pngBlob)],
            clipboard_accepts p ''image/png'' pngBlob)"
  using assms
  by (simp add: writeToClipboardWithFallback_def png_attempt_def supportedTypes_def)

section \<open>A response that arrives after a new acquisition\<close>

text \<open>
  C1, as stated, fails. Photo A is picked and its request is pending; photo B is pasted
  and read, so that B is the original and two requests are pending. The response to A's
  request then arrives: its blob becomes \<^verbatim>\<open>processedImageBlob\<close>, and after the base64
  reader and the timer the result panel shows A's enhanced image next to original B, in
  phase \<open>Result\<close>, while B's request is still pending. Had A's request failed instead, its
  error would be shown and the phase would be \<open>Failed\<close>.
\<close>

theorem stale_response_counterexample:
  "run (acquire_a @ acquire_b) initial = Some (after (acquire_a @ acquire_b)) \<and>
   phase_of (after acquire_a) = Processing \<and>
   map img (inflight (after acquire_a)) = [''data:image/png;base64,QQ==''] \<and>
   currentImageData (after (acquire_a @ acquire_b)) = Some ''data:image/jpeg;base64,Qg=='' \<and>
   map img (inflight (after (acquire_a @ acquire_b))) =
     [''data:image/png;base64,QQ=='', ''data:image/jpeg;base64,Qg==''] \<and>
   processedImageBlob (after (acquire_a @ acquire_b)) = None \<and>
   run (acquire_a @ acquire_b @ show_result_a) initial =
     Some (after (acquire_a @ acquire_b @ show_result_a)) \<and>
   processedImageBlob (after (acquire_a @ acquire_b @ [AjaxSuccess 0 enhanced_a])) =
     Some enhanced_a \<and>
   currentImageData (after (acquire_a @ acquire_b @ show_result_a)) =
     Some ''data:image/jpeg;base64,Qg=='' \<and>
   processedImageBlob (after (acquire_a @ acquire_b @ show_result_a)) = Some enhanced_a \<and>
   processedImage (after (acquire_a @ acquire_b @ show_result_a)) =
     Some ''data:image/jpeg;base64,YQ=='' \<and>
   phase_of (after (acquire_a @ acquire_b @ show_result_a)) = Result \<and>
   map img (inflight (after (acquire_a @ acquire_b @ show_result_a))) =
     [''data:image/jpeg;base64,Qg==''] \<and>
   run (acquire_a @ acquire_b @ [AjaxError 0 server_down ''error'']) initial =
     Some (after (acquire_a @ acquire_b @ [AjaxError 0 server_down ''error''])) \<and>
   shown_error (after (acquire_a @ acquire_b @ [AjaxError 0 server_down ''error''])) =
     Some ServerUnavailable \<and>
   phase_of (after (acquire_a @ acquire_b @ [AjaxError 0 server_down ''error''])) = Failed"
  by (simp add: eval_samples eval_handlers phase_of_def shown_error_def)

text \<open>
  C1, amended. The callbacks of a request do not look at the original. Whatever the
  current original is, the success callback of any pending request stores its blob as
  \<^verbatim>\<open>processedImageBlob\<close> and starts a base64 reader on it, and the error callback shows the
  request's error and hides the processing and result panels; neither changes the stored
  original. Each later step is as blind: a base64 reader that loads stores the data URL of
  its own blob as \<^verbatim>\<open>processedImageBase64\<close> and sets a display timer, and a display timer
  that fires shows the result panel with whatever \<^verbatim>\<open>processedImageBase64\<close> holds then.
\<close>

theorem late_resolution_applied:
  assumes "i < length (inflight s)"
  shows "(\<exists>s'. fire (AjaxSuccess i data) s = Some s' \<and>
               processedImageBlob s' = Some data \<and>
               blobReaders s' = blobReaders s @ [data] \<and>
               currentImageData s' = currentImageData s \<and>
               inflight s' = remove_nth i (inflight s)) \<and>
         (\<exists>s'. fire (AjaxError i x status) s = Some s' \<and>
               shown_error s' = Some (processing_error_message x status) \<and>
               \<not> processingContainer s' \<and>
               \<not> processedImageContainer s' \<and>
               currentImageData s' = currentImageData s \<and>
               inflight s' = remove_nth i (inflight s)) \<and>
         (j < length (blobReaders s1) \<longrightarrow>
            (\<exists>s'. fire (BlobReaderLoad j) s1 = Some s' \<and>
                  processedImageBase64 s' =
                    Some (readAsDataURL (btype (blobReaders s1 ! j))
                            (bdata (blobReaders s1 ! j))) \<and>
                  displayTimers s' = Suc (displayTimers s1) \<and>
                  processedImageBlob s' = processedImageBlob s1 \<and>
                  currentImageData s' = currentImageData s1)) \<and>
         (0 < displayTimers s2 \<longrightarrow>
            (\<exists>s'. fire DisplayResult s2 = Some s' \<and>
                  processedImage s' = processedImageBase64 s2 \<and>
                  processedImageContainer s' \<and>
                  \<not> processingContainer s' \<and>
                  processedImageBlob s' = processedImageBlob s2 \<and>
                  currentImageData s' = currentImageData s2))"
  using assms
  by (simp add: ajax_success_def ajax_error_def handleProcessingError_def showError_def
      hideProcessingState_def hideImageLoadingState_def shown_error_def
      blob_reader_onload_def display_result_def)

text \<open>
  The response to A's request arriving while B is the original, then its base64 reader
  and its display timer.
\<close>

theorem late_resolution_applied_witness:
  "(0::nat) < length (inflight (after (acquire_a @ acquire_b))) \<and>
   img (inflight (after (acquire_a @ acquire_b)) ! 0) = ''data:image/png;base64,QQ=='' \<and>
   currentImageData (after (acquire_a @ acquire_b)) = Some ''data:image/jpeg;base64,Qg=='' \<and>
   fire (AjaxSuccess 0 enhanced_a) (after (acquire_a @ acquire_b)) =
     Some (after (acquire_a @ acquire_b @ [AjaxSuccess 0 enhanced_a])) \<and>
   processedImageBlob (after (acquire_a @ acquire_b @ [AjaxSuccess 0 enhanced_a])) =
     Some enhanced_a \<and>
   currentImageData (after (acquire_a @ acquire_b @ [AjaxSuccess 0 enhanced_a])) =
     Some ''data:image/jpeg;base64,Qg=='' \<and>
   (0::nat) < length (blobReaders (after (acquire_a @ acquire_b @ [AjaxSuccess 0 enhanced_a]))) \<and>
   fire (BlobReaderLoad 0) (after (acquire_a @ acquire_b @ [AjaxSuccess 0 enhanced_a])) =
     Some (after (acquire_a @ acquire_b @ [AjaxSuccess 0 enhanced_a, BlobReaderLoad 0])) \<and>
   processedImageBase64
     (after (acquire_a @ acquire_b @ [AjaxSuccess 0 enhanced_a, BlobReaderLoad 0])) =
     Some ''data:image/jpeg;base64,YQ=='' \<and>
   0 < displayTimers
     (after (acquire_a @ acquire_b @ [AjaxSuccess 0 enhanced_a, BlobReaderLoad 0])) \<and>
   fire DisplayResult
     (after (acquire_a @ acquire_b @ [AjaxSuccess 0 enhanced_a, BlobReaderLoad 0])) =
     Some (after (acquire_a @ acquire_b @ show_result_a)) \<and>
   processedImage (after (acquire_a @ acquire_b @ show_result_a)) =
     Some ''data:image/jpeg;base64,YQ=='' \<and>
   currentImageData (after (acquire_a @ acquire_b @ show_result_a)) =
     Some ''data:image/jpeg;base64,Qg==''"
  using late_resolution_applied [of 0 "after (acquire_a @ acquire_b)" enhanced_a server_down
      "''error''" 0 "after (acquire_a @ acquire_b @ [AjaxSuccess 0 enhanced_a])"
      "after (acquire_a @ acquire_b @ [AjaxSuccess 0 enhanced_a, BlobReaderLoad 0])"]
  by (simp add: eval_samples eval_handlers)

section \<open>The previous result after a new acquisition\<close>

text \<open>
  C2 on the script: photo A is acquired and its result shown; photo B is then acquired.
  The reader callback replaces the original and hides the alerts, but
  \<^verbatim>\<open>processedImageBlob\<close> and \<^verbatim>\<open>processedImageBase64\<close> still hold A's result and the result
  panel stays visible while B is in phase \<open>Processing\<close>. When B's request fails, the phase is
  \<open>Failed\<close> and both variables still hold A's result.
\<close>

theorem new_acquisition_keeps_result:
  "run (acquire_a @ show_result_a @ acquire_b) initial =
     Some (after (acquire_a @ show_result_a @ acquire_b)) \<and>
   phase_of (after (acquire_a @ show_result_a)) = Result \<and>
   processedImageBlob (after (acquire_a @ show_result_a)) = Some enhanced_a \<and>
   currentImageData (after (acquire_a @ show_result_a @ acquire_b)) =
     Some ''data:image/jpeg;base64,Qg=='' \<and>
   phase_of (after (acquire_a @ show_result_a @ acquire_b)) = Processing \<and>
   processedImageBlob (after (acquire_a @ show_result_a @ acquire_b)) = Some enhanced_a \<and>
   processedImageBase64 (after (acquire_a @ show_result_a @ acquire_b)) =
     Some ''data:image/jpeg;base64,YQ=='' \<and>
   processedImageContainer (after (acquire_a @ show_result_a @ acquire_b)) \<and>
   run (acquire_a @ show_result_a @ acquire_b @ [AjaxError 0 server_down ''error'']) initial =
     Some (after (acquire_a @ show_result_a @ acquire_b @ [AjaxError 0 server_down ''error''])) \<and>
   phase_of (after (acquire_a @ show_result_a @ acquire_b @ [AjaxError 0 server_down ''error'']))
     = Failed \<and>
   processedImageBlob
     (after (acquire_a @ show_result_a @ acquire_b @ [AjaxError 0 server_down ''error'']))
     = Some enhanced_a \<and>
   processedImageBase64
     (after (acquire_a @ show_result_a @ acquire_b @ [AjaxError 0 server_down ''error'']))
     = Some ''data:image/jpeg;base64,YQ==''"
  by (simp add: eval_samples eval_handlers phase_of_def)

section \<open>The order of the clipboard writes\<close>

text \<open>
  C3, as stated, fails for a JPEG source. On a browser whose clipboard would take the JPEG
  item, \<^verbatim>\<open>copyImageAsFile\<close> first converts the blob to PNG and then writes an item of type
  \<^verbatim>\<open>image/png\<close>; no write of type \<^verbatim>\<open>image/jpeg\<close> is attempted.
\<close>

theorem native_attempt_counterexample:
  "btype enhanced_a = ''image/jpeg'' \<and>
   clipboard_accepts (any_type enhanced_a) ''image/jpeg'' enhanced_a \<and>
   copyImageAsFile (any_type enhanced_a) ''data:image/jpeg;base64,YQ=='' ''processed''
       ''2025-01-01T12:00:00.000Z'' =
     ([Converted enhanced_a True,
       Written ''image/png'' \<lparr>btype = ''image/png'', bdata = ''iVBORw==''\<rparr> True],
      Copied ''docuscan_enhanced_2025-01-01T12-00-00.png'') \<and>
   attempted_types (fst (copyImageAsFile (any_type enhanced_a)
       ''data:image/jpeg;base64,YQ=='' ''processed'' ''2025-01-01T12:00:00.000Z'')) =
     [''image/png'']"
  by (simp add: eval_export eval_samples)

text \<open>
  C3, amended. Let the clipboard be available and the source be fetched as blob \<open>b\<close>. If
  \<open>b\<close> is not a JPEG, the first call of the export is a write of \<open>b\<close> under its own type; if
  that write is accepted nothing follows, and \<open>b\<close> is converted to PNG exactly when that
  write is refused and the type is not \<^verbatim>\<open>image/png\<close>. If \<open>b\<close> is a JPEG
  (\<^verbatim>\<open>image/jpeg\<close> or \<^verbatim>\<open>image/jpg\<close>), the first call is the conversion to PNG; when it
  succeeds, the one write attempted is of type \<^verbatim>\<open>image/png\<close>, and when it fails nothing is
  written. \<^verbatim>\<open>writeToClipboardWithFallback\<close> itself, for any blob and type, first writes the
  blob under the given type and converts it to PNG exactly when that write is refused and
  the type is not \<^verbatim>\<open>image/png\<close>.
\<close>

theorem export_attempt_order:
  assumes "clipboard_available p" and "fetch_blob p src = Some b"
  shows "(btype b \<noteq> ''image/jpeg'' \<and> btype b \<noteq> ''image/jpg'' \<longrightarrow>
           (\<exists>rest. fst (copyImageAsFile p src imageType isoString) =
                     Written (btype b) b (clipboard_accepts p (btype b) b) # rest \<and>
                   (clipboard_accepts p (btype b) b \<longrightarrow> rest = []) \<and>
                   ((\<exists>ok. Converted b ok \<in> set rest) \<longleftrightarrow>
                      \<not> clipboard_accepts p (btype b) b \<and> btype b \<noteq> ''image/png''))) \<and>
         (btype b = ''image/jpeg'' \<or> btype b = ''image/jpg'' \<longrightarrow>
           (\<exists>ok tr. fst (copyImageAsFile p src imageType isoString) = Converted b ok # tr \<and>
                    set (attempted_types tr) \<subseteq> {''image/png''} \<and>
                    (ok \<longrightarrow> attempted_types tr = [''image/png'']) \<and>
                    (\<not> ok \<longrightarrow> tr = []))) \<and>
         (\<exists>rest. fst (writeToClipboardWithFallback p b1 mimeType) =
                   Written mimeType b1 (clipboard_accepts p mimeType b1) # rest \<and>
                 (clipboard_accepts p mimeType b1 \<longrightarrow> rest = []) \<and>
                 ((\<exists>ok. Converted b1 ok \<in> set rest) \<longleftrightarrow>
                    \<not> clipboard_accepts p mimeType b1 \<and> mimeType \<noteq> ''image/png''))"
proof (intro conjI impI)
  assume other: "btype b \<noteq> ''image/jpeg'' \<and> btype b \<noteq> ''image/jpg''"
  obtain tr ok where w: "writeToClipboardWithFallback p b (btype b) = (tr, ok)"
    by (cases "writeToClipboardWithFallback p b (btype b)")
  with assms other have "fst (copyImageAsFile p src imageType isoString) = tr"
    by (simp add: copyImageAsFile_def Let_def)
  with writeToClipboard_shape [of p b "btype b"] w
  show "\<exists>rest. fst (copyImageAsFile p src imageType isoString) =
                     Written (btype b) b (clipboard_accepts p (btype b) b) # rest \<and>
                   (clipboard_accepts p (btype b) b \<longrightarrow> rest = []) \<and>
                   ((\<exists>ok. Converted b ok \<in> set rest) \<longleftrightarrow>
                      \<not> clipboard_accepts p (btype b) b \<and> btype b \<noteq> ''image/png'')"
    by simp
next
  assume jpeg: "btype b = ''image/jpeg'' \<or> btype b = ''image/jpg''"
  show "\<exists>ok tr. fst (copyImageAsFile p src imageType isoString) = Converted b ok # tr \<and>
                    set (attempted_types tr) \<subseteq> {''image/png''} \<and>
                    (ok \<longrightarrow> attempted_types tr = [''image/png'']) \<and>
                    (\<not> ok \<longrightarrow> tr = [])"
  proof (cases "convertImageToPNG p b")
    case (Inl e)
    with assms jpeg have "fst (copyImageAsFile p src imageType isoString) = [Converted b False]"
      by (simp add: copyImageAsFile_def)
    then show ?thesis by (intro exI [of _ False] exI [of _ "[]"]) simp
  next
    case (Inr pngBlob)
    then have "btype pngBlob = ''image/png''"
      by (auto simp: convertImageToPNG_def split: png_result.splits)
    from write_png_blob [OF this, of p] Inr assms jpeg
    have "fst (copyImageAsFile p src imageType isoString) =
        [Converted b True,
         Written ''image/png'' pngBlob (clipboard_accepts p ''image/png'' pngBlob)]"
      by (simp add: copyImageAsFile_def Let_def)
    then show ?thesis
      by (intro exI [of _ True]
          exI [of _ "[Written ''image/png'' pngBlob (clipboard_accepts p ''image/png'' pngBlob)]"])
        simp
  qed
next
  show "\<exists>rest. fst (writeToClipboardWithFallback p b1 mimeType) =
                   Written mimeType b1 (clipboard_accepts p mimeType b1) # rest \<and>
                 (clipboard_accepts p mimeType b1 \<longrightarrow> rest = []) \<and>
                 ((\<exists>ok. Converted b1 ok \<in> set rest) \<longleftrightarrow>
                    \<not> clipboard_accepts p mimeType b1 \<and> mimeType \<noteq> ''image/png'')"
    by (rule writeToClipboard_shape)
qed

text \<open>A WebP and a JPEG source on a browser whose clipboard takes PNG only.\<close>

theorem export_attempt_order_witness:
  "clipboard_available (png_only webp_image) \<and>
   fetch_blob (png_only webp_image) ''data:image/webp;base64,UklGRg=='' = Some webp_image \<and>
   btype webp_image \<noteq> ''image/jpeg'' \<and> btype webp_image \<noteq> ''image/jpg'' \<and>
   fst (copyImageAsFile (png_only webp_image) ''data:image/webp;base64,UklGRg==''
          ''original'' ''2025-01-01T12:00:00.000Z'') =
     [Written ''image/webp'' webp_image False, Converted webp_image True,
      Written ''image/png'' \<lparr>btype = ''image/png'', bdata = ''iVBORw==''\<rparr> True] \<and>
   clipboard_available (png_only enhanced_a) \<and>
   fetch_blob (png_only enhanced_a) ''data:image/jpeg;base64,YQ=='' = Some enhanced_a \<and>
   btype enhanced_a = ''image/jpeg'' \<and>
   fst (copyImageAsFile (png_only enhanced_a) ''data:image/jpeg;base64,YQ==''
          ''processed'' ''2025-01-01T12:00:00.000Z'') =
     [Converted enhanced_a True,
      Written ''image/png'' \<lparr>btype = ''image/png'', bdata = ''iVBORw==''\<rparr> True]"
  using export_attempt_order [of "png_only webp_image" "''data:image/webp;base64,UklGRg==''"
      webp_image "''original''" "''2025-01-01T12:00:00.000Z''" webp_image "''image/webp''"]
    export_attempt_order [of "png_only enhanced_a" "''data:image/jpeg;base64,YQ==''"
      enhanced_a "''processed''" "''2025-01-01T12:00:00.000Z''" enhanced_a "''image/jpeg''"]
  by (simp add: eval_export eval_samples)

section \<open>The reported file name\<close>

text \<open>
  C4 on the script: a WebP source on a browser whose clipboard refuses \<^verbatim>\<open>image/webp\<close> and
  takes \<^verbatim>\<open>image/png\<close>. The write under the source type fails, the PNG fallback succeeds,
  and the name reported to the user, fixed before the writes, ends in \<^verbatim>\<open>.webp\<close>.
\<close>

theorem fallback_name_keeps_source_extension:
  "copyImageAsFile (png_only webp_image) ''data:image/webp;base64,UklGRg=='' ''processed''
       ''2025-01-01T12:00:00.000Z'' =
     ([Written ''image/webp'' webp_image False, Converted webp_image True,
       Written ''image/png'' \<lparr>btype = ''image/png'', bdata = ''iVBORw==''\<rparr> True],
      Copied ''docuscan_enhanced_2025-01-01T12-00-00.webp'') \<and>
   written_type (fst (copyImageAsFile (png_only webp_image)
       ''data:image/webp;base64,UklGRg=='' ''processed'' ''2025-01-01T12:00:00.000Z'')) =
     Some ''image/png'' \<and>
   extension_of ''image/png'' = ''png'' \<and>
   extension_of (btype webp_image) = ''webp''"
  by (simp add: eval_export eval_samples)

section \<open>Files that are too large\<close>

text \<open>
  C5, as stated, fails. A text file of 11 MiB is rejected for its type, not for its size,
  since the type is checked first. An image of one tebibyte is rejected with the size
  printed as \<^verbatim>\<open>1 undefined\<close>, and one of 12 MiB with the size printed as \<^verbatim>\<open>12 MB\<close>,
  without a decimal place.
\<close>

theorem too_large_counterexample:
  "maxSize < fsize notes_txt \<and>
   handleImageFile notes_txt initial = showError InvalidImageFile initial \<and>
   shown_error (handleImageFile notes_txt initial) = Some InvalidImageFile \<and>
   maxSize < fsize huge_png \<and>
   shown_error (handleImageFile huge_png initial) = Some (FileTooLarge ''1 undefined'') \<and>
   maxSize < fsize big_jpeg \<and>
   shown_error (handleImageFile big_jpeg initial) = Some (FileTooLarge ''12 MB'')"
  by (simp add: eval_samples eval_handlers shown_error_def eval_size)

text \<open>
  C5, amended. For every file whose declared type starts with \<^verbatim>\<open>image/\<close> and whose size
  exceeds \<open>maxSize\<close>, \<^verbatim>\<open>handleImageFile\<close> shows the too-large message, which carries
  \<^verbatim>\<open>formatFileSize(file.size)\<close>, and returns: no reader is started, no request is issued or
  pending that was not before, the original and the result are as they were, and the phase
  is unchanged unless it was \<open>Loaded\<close>. For sizes below \<open>1024 ^ 4\<close> the formatted size is the
  number of MB or GB rounded to the nearest tenth, printed without a trailing \<^verbatim>\<open>.0\<close>
  (\<open>number_text\<close>), then a space and the unit.
\<close>

theorem too_large_rejected:
  assumes "startsWith (ftype f) ''image/''" and "maxSize < fsize f"
  shows "handleImageFile f s = showError (FileTooLarge (formatFileSize (fsize f))) s \<and>
         shown_error (handleImageFile f s) = Some (FileTooLarge (formatFileSize (fsize f))) \<and>
         sent (handleImageFile f s) = sent s \<and>
         inflight (handleImageFile f s) = inflight s \<and>
         readers (handleImageFile f s) = readers s \<and>
         currentImageData (handleImageFile f s) = currentImageData s \<and>
         processedImageBlob (handleImageFile f s) = processedImageBlob s \<and>
         processedImageBase64 (handleImageFile f s) = processedImageBase64 s \<and>
         (phase_of s \<noteq> Loaded \<longrightarrow> phase_of (handleImageFile f s) = phase_of s) \<and>
         (fsize f < 1024 ^ 4 \<longrightarrow>
            (floor_log1024 (fsize f) = 2 \<or> floor_log1024 (fsize f) = 3) \<and>
            formatFileSize (fsize f) =
              number_text (toFixed1 (fsize f) (1024 ^ floor_log1024 (fsize f))) @ '' '' @
              (if floor_log1024 (fsize f) = 2 then ''MB'' else ''GB''))"
proof -
  from assms have rej:
    "handleImageFile f s = showError (FileTooLarge (formatFileSize (fsize f))) s"
    by (simp add: handleImageFile_def)
  have fmt: "(floor_log1024 (fsize f) = 2 \<or> floor_log1024 (fsize f) = 3) \<and>
            formatFileSize (fsize f) =
              number_text (toFixed1 (fsize f) (1024 ^ floor_log1024 (fsize f))) @ '' '' @
              (if floor_log1024 (fsize f) = 2 then ''MB'' else ''GB'')"
    if small: "fsize f < 1024 ^ 4"
  proof -
    from assms(2) have pos: "fsize f \<noteq> 0" by (simp add: maxSize_def)
    from formatFileSize_MB_GB [OF assms(2) small]
    have i: "floor_log1024 (fsize f) = 2 \<or> floor_log1024 (fsize f) = 3" .
    then have "sizes_at (floor_log1024 (fsize f)) =
        (if floor_log1024 (fsize f) = 2 then ''MB'' else ''GB'')"
      by (auto simp: sizes_at_def sizes_def)
    moreover from small have "log_index (fsize f) = floor_log1024 (fsize f)"
      by (simp add: log_index_exact)
    ultimately show ?thesis using pos i by (simp add: formatFileSize_def Let_def)
  qed
  from rej showError_keeps [of "FileTooLarge (formatFileSize (fsize f))" s]
    showError_phase [of s "FileTooLarge (formatFileSize (fsize f))"] fmt
  show ?thesis by simp
qed

text \<open>The JPEG of 12 MiB, offered to a fresh session.\<close>

theorem too_large_rejected_witness:
  "startsWith (ftype big_jpeg) ''image/'' \<and> maxSize < fsize big_jpeg \<and>
   fsize big_jpeg < 1024 ^ 4 \<and>
   handleImageFile big_jpeg initial = showError (FileTooLarge ''12 MB'') initial \<and>
   sent (handleImageFile big_jpeg initial) = [] \<and>
   readers (handleImageFile big_jpeg initial) = [] \<and>
   phase_of initial = Idle \<and>
   phase_of (handleImageFile big_jpeg initial) = Idle \<and>
   formatFileSize 11010049 = ''10.5 MB''"
  using too_large_rejected [of big_jpeg initial]
  by (simp add: eval_samples eval_handlers eval_size phase_of_def)

section \<open>Sources that are not images\<close>




section \<open>The timeout of a request\<close>

text \<open>
  C7, as stated, fails for a request that outlives a reset. Photo A is acquired and the
  session is reset while A's request, with its timeout of 60000 ms, is still pending. When
  that request times out, the time-out message is shown, but there is no original and the
  phase is \<open>Idle\<close>, not \<open>Failed\<close>.
\<close>

theorem timeout_after_reset_counterexample:
  "run (acquire_a @ [Reset, AjaxError 0 timed_out ''timeout'']) initial =
     Some (after (acquire_a @ [Reset, AjaxError 0 timed_out ''timeout''])) \<and>
   phase_of (after (acquire_a @ [Reset])) = Idle \<and>
   map timeout_ms (inflight (after (acquire_a @ [Reset]))) = [60000] \<and>
   shown_error (after (acquire_a @ [Reset, AjaxError 0 timed_out ''timeout''])) =
     Some RequestTimedOut \<and>
   currentImageData (after (acquire_a @ [Reset, AjaxError 0 timed_out ''timeout''])) = None \<and>
   phase_of (after (acquire_a @ [Reset, AjaxError 0 timed_out ''timeout''])) = Idle \<and>
   phase_of (after (acquire_a @ [Reset, AjaxError 0 timed_out ''timeout''])) \<noteq> Failed"
  by (simp add: eval_samples eval_handlers phase_of_def shown_error_def)

text \<open>
  C7, amended. In every session reached from the initial page, every request issued, and
  so every pending one, carries the timeout of 60000 ms. When a pending request ends with
  status \<^verbatim>\<open>timeout\<close>, the time-out message is shown and the callback issues no request: the
  requests issued are the same, the pending ones are one fewer, and the original and the
  stored result are as they were. The phase is then \<open>Failed\<close> if the session has an
  original, and \<open>Idle\<close> if it has none. No event other than the load of a file reader,
  which follows a user's acquisition, ever issues a request.
\<close>

theorem timeout_fails_without_retry:
  assumes "run evs initial = Some s" and "i < length (inflight s)"
  shows "timeout_ms (inflight s ! i) = 60000 \<and>
         (\<forall>r\<in>set (sent s). timeout_ms r = 60000) \<and>
         (\<exists>s'. fire (AjaxError i x ''timeout'') s = Some s' \<and>
               shown_error s' = Some RequestTimedOut \<and>
               phase_of s' = (if currentImageData s = None then Idle else Failed) \<and>
               sent s' = sent s \<and>
               inflight s' = remove_nth i (inflight s) \<and>
               currentImageData s' = currentImageData s \<and>
               processedImageBlob s' = processedImageBlob s) \<and>
         (\<forall>e s2 s3. fire e s2 = Some s3 \<and> (\<forall>j. e \<noteq> ReaderLoad j) \<longrightarrow> sent s3 = sent s2)"
proof -
  have "\<forall>r\<in>set (inflight s). timeout_ms r = 60000"
    using run_inflight_timeouts [OF assms(1)] by (simp add: initial_def)
  with assms(2) have a: "timeout_ms (inflight s ! i) = 60000" by simp
  have b: "\<forall>r\<in>set (sent s). timeout_ms r = 60000"
    using run_timeouts [OF assms(1)] by (simp add: initial_def)
  let ?s' = "ajax_error x ''timeout'' (s\<lparr>inflight := remove_nth i (inflight s)\<rparr>)"
  from assms(2) have c: "fire (AjaxError i x ''timeout'') s = Some ?s'" by simp
  have d: "shown_error ?s' = Some RequestTimedOut"
    by (simp add: ajax_error_def handleProcessingError_def showError_def
        hideProcessingState_def hideImageLoadingState_def shown_error_def
        processing_error_message_def)
  have e: "phase_of ?s' = (if currentImageData s = None then Idle else Failed)"
    by (simp add: ajax_error_def handleProcessingError_def showError_def
        hideProcessingState_def hideImageLoadingState_def phase_of_def)
  have f: "sent ?s' = sent s \<and> inflight ?s' = remove_nth i (inflight s) \<and>
           currentImageData ?s' = currentImageData s \<and>
           processedImageBlob ?s' = processedImageBlob s"
    by (simp add: ajax_error_def handleProcessingError_def showError_def
        hideProcessingState_def hideImageLoadingState_def)
  have h: "\<forall>e s2 s3. fire e s2 = Some s3 \<and> (\<forall>j. e \<noteq> ReaderLoad j) \<longrightarrow> sent s3 = sent s2"
    using fire_sent_unchanged by blast
  from a b c d e f h show ?thesis by blast
qed

text \<open>
  Photo A's request timing out while A is the original; B's request timing out after A's
  late result has been displayed (phase \<open>Result\<close>); and A's request timing out after a
  reset.
\<close>

theorem timeout_fails_without_retry_witness:
  "run acquire_a initial = Some (after acquire_a) \<and>
   (0::nat) < length (inflight (after acquire_a)) \<and>
   timeout_ms (inflight (after acquire_a) ! 0) = 60000 \<and>
   fire (AjaxError 0 timed_out ''timeout'') (after acquire_a) =
     Some (after (acquire_a @ [AjaxError 0 timed_out ''timeout''])) \<and>
   shown_error (after (acquire_a @ [AjaxError 0 timed_out ''timeout''])) =
     Some RequestTimedOut \<and>
   phase_of (after (acquire_a @ [AjaxError 0 timed_out ''timeout''])) = Failed \<and>
   sent (after (acquire_a @ [AjaxError 0 timed_out ''timeout''])) = sent (after acquire_a) \<and>
   inflight (after (acquire_a @ [AjaxError 0 timed_out ''timeout''])) = [] \<and>
   run (acquire_a @ acquire_b @ show_result_a) initial =
     Some (after (acquire_a @ acquire_b @ show_result_a)) \<and>
   (0::nat) < length (inflight (after (acquire_a @ acquire_b @ show_result_a))) \<and>
   phase_of (after (acquire_a @ acquire_b @ show_result_a)) = Result \<and>
   phase_of (after (acquire_a @ acquire_b @ show_result_a @
                      [AjaxError 0 timed_out ''timeout''])) = Failed \<and>
   run (acquire_a @ [Reset]) initial = Some (after (acquire_a @ [Reset])) \<and>
   (0::nat) < length (inflight (after (acquire_a @ [Reset]))) \<and>
   phase_of (after (acquire_a @ [Reset, AjaxError 0 timed_out ''timeout''])) = Idle"
proof -
  have r1: "run acquire_a initial = Some (after acquire_a)"
    and l1: "(0::nat) < length (inflight (after acquire_a))"
    by (simp_all add: eval_samples eval_handlers)
  have r2: "run (acquire_a @ acquire_b @ show_result_a) initial =
      Some (after (acquire_a @ acquire_b @ show_result_a))"
    and l2: "(0::nat) < length (inflight (after (acquire_a @ acquire_b @ show_result_a)))"
    by (simp_all add: eval_samples eval_handlers)
  have r3: "run (acquire_a @ [Reset]) initial = Some (after (acquire_a @ [Reset]))"
    and l3: "(0::nat) < length (inflight (after (acquire_a @ [Reset])))"
    by (simp_all add: eval_samples eval_handlers)
  from timeout_fails_without_retry [OF r1 l1, of timed_out]
  have t1: "timeout_ms (inflight (after acquire_a) ! 0) = 60000" by blast
  from timeout_fails_without_retry [OF r2 l2, of timed_out]
  have t2: "timeout_ms (inflight (after (acquire_a @ acquire_b @ show_result_a)) ! 0) = 60000"
    by blast
  from timeout_fails_without_retry [OF r3 l3, of timed_out]
  have t3: "timeout_ms (inflight (after (acquire_a @ [Reset])) ! 0) = 60000" by blast
  have f1: "fire (AjaxError 0 timed_out ''timeout'') (after acquire_a) =
      Some (after (acquire_a @ [AjaxError 0 timed_out ''timeout'']))"
    and e1: "shown_error (after (acquire_a @ [AjaxError 0 timed_out ''timeout''])) =
      Some RequestTimedOut"
    and p1: "phase_of (after (acquire_a @ [AjaxError 0 timed_out ''timeout''])) = Failed"
    and s1: "sent (after (acquire_a @ [AjaxError 0 timed_out ''timeout''])) =
      sent (after acquire_a)"
    and i1: "inflight (after (acquire_a @ [AjaxError 0 timed_out ''timeout''])) = []"
    by (simp_all add: eval_samples eval_handlers phase_of_def shown_error_def)
  have p2: "phase_of (after (acquire_a @ acquire_b @ show_result_a)) = Result"
    and q2: "phase_of (after (acquire_a @ acquire_b @ show_result_a @
                      [AjaxError 0 timed_out ''timeout''])) = Failed"
    and p3: "phase_of (after (acquire_a @ [Reset, AjaxError 0 timed_out ''timeout''])) = Idle"
    by (simp_all add: eval_samples eval_handlers phase_of_def)
  from r1 l1 t1 f1 e1 p1 s1 i1 r2 l2 p2 q2 r3 l3 p3 t2 t3 show ?thesis by blast
qed

section \<open>Reset\<close>

text \<open>
  C8. From every session, whatever its phase (\<open>Loaded\<close>, \<open>Processing\<close>, \<open>Result\<close> or
  \<open>Failed\<close> in particular), \<^verbatim>\<open>resetTool\<close> yields phase \<open>Idle\<close> with the original, the
  result (blob and base64) and the shown error all absent; the upload area is back and the
  original, processing and result panels are hidden.
\<close>

theorem resetTool_idle:
  "fire Reset s = Some (resetTool s) \<and>
   phase_of (resetTool s) = Idle \<and>
   currentImageData (resetTool s) = None \<and>
   processedImageBlob (resetTool s) = None \<and>
   processedImageBase64 (resetTool s) = None \<and>
   shown_error (resetTool s) = None \<and>
   pasteArea (resetTool s) \<and>
   \<not> originalImageContainer (resetTool s) \<and>
   \<not> processingContainer (resetTool s) \<and>
   \<not> processedImageContainer (resetTool s)"
  by (simp add: resetTool_def hideAlerts_def hideImageLoadingState_def phase_of_def
      shown_error_def)


text \<open>One session of each of the four phases, reset.\<close>

theorem resetTool_idle_witness:
  "phase_of (store_original photo_a initial) = Loaded \<and>
   phase_of (resetTool (store_original photo_a initial)) = Idle \<and>
   phase_of (after acquire_a) = Processing \<and>
   phase_of (resetTool (after acquire_a)) = Idle \<and>
   phase_of (after (acquire_a @ show_result_a)) = Result \<and>
   processedImageBlob (after (acquire_a @ show_result_a)) = Some enhanced_a \<and>
   processedImageBlob (resetTool (after (acquire_a @ show_result_a))) = None \<and>
   phase_of (resetTool (after (acquire_a @ show_result_a))) = Idle \<and>
   phase_of (after (acquire_a @ [AjaxError 0 server_down ''error''])) = Failed \<and>
   shown_error (after (acquire_a @ [AjaxError 0 server_down ''error''])) =
     Some ServerUnavailable \<and>
   shown_error (resetTool (after (acquire_a @ [AjaxError 0 server_down ''error'']))) = None \<and>
   phase_of (resetTool (after (acquire_a @ [AjaxError 0 server_down ''error'']))) = Idle"
  using resetTool_idle [of "store_original photo_a initial"]
    resetTool_idle [of "after acquire_a"]
    resetTool_idle [of "after (acquire_a @ show_result_a)"]
    resetTool_idle [of "after (acquire_a @ [AjaxError 0 server_down ''error''])"]
  by (simp add: eval_samples eval_handlers phase_of_def shown_error_def)

section \<open>Acquisition and the start of processing\<close>

text \<open>
  C9. For a file that passes both checks, \<^verbatim>\<open>handleImageFile\<close> issues no request: it only
  starts a reader. When that reader has loaded, its callback stores the new original and
  issues exactly one request, whose payload is that original, and the session is
  \<open>Processing\<close>; the part of the callback before \<^verbatim>\<open>processImage\<close> issues nothing. No event
  other than the load of such a reader issues a request.
\<close>

theorem acquisition_then_one_request:
  assumes "startsWith (ftype f) ''image/''" and "fsize f \<le> maxSize"
  shows "sent (handleImageFile f s) = sent s \<and>
         inflight (handleImageFile f s) = inflight s \<and>
         currentImageData (handleImageFile f s) = currentImageData s \<and>
         readers (handleImageFile f s) = readers s @ [f] \<and>
         fire (ReaderLoad (length (readers s))) (handleImageFile f s) =
           Some (reader_onload f ((handleImageFile f s)\<lparr>readers := readers s\<rparr>)) \<and>
         sent (store_original f s1) = sent s1 \<and>
         currentImageData (reader_onload f s1) = Some (readAsDataURL (ftype f) (fdata f)) \<and>
         sent (reader_onload f s1) =
           sent s1 @ [\<lparr>url = ''/process-image'', http_method = ''POST'',
                       img = readAsDataURL (ftype f) (fdata f), timeout_ms = 60000\<rparr>] \<and>
         inflight (reader_onload f s1) =
           inflight s1 @ [\<lparr>url = ''/process-image'', http_method = ''POST'',
                       img = readAsDataURL (ftype f) (fdata f), timeout_ms = 60000\<rparr>] \<and>
         phase_of (reader_onload f s1) = Processing \<and>
         (\<forall>e s2 s3. fire e s2 = Some s3 \<and> (\<forall>j. e \<noteq> ReaderLoad j) \<longrightarrow> sent s3 = sent s2)"
proof -
  from assms have acc:
    "handleImageFile f s = (showImageLoadingState s)\<lparr>readers := readers s @ [f]\<rparr>"
    by (simp add: handleImageFile_def)
  have a: "readers (handleImageFile f s) = readers s @ [f]"
    by (simp add: acc)
  have b: "currentImageData (handleImageFile f s) = currentImageData s"
    by (simp add: acc showImageLoadingState_def)
  have c: "fire (ReaderLoad (length (readers s))) (handleImageFile f s) =
           Some (reader_onload f ((handleImageFile f s)\<lparr>readers := readers s\<rparr>))"
    by (simp add: a remove_nth_last)
  have d: "sent (store_original f s1) = sent s1"
    by (simp add: store_original_def showOriginalImage_def hideAlerts_def
        hideImageLoadingState_def)
  have e: "currentImageData (reader_onload f s1) = Some (readAsDataURL (ftype f) (fdata f))"
    by (simp add: reader_onload_def store_original_def processImage_def
        showOriginalImage_def hideAlerts_def hideImageLoadingState_def
        showProcessingState_def readAsDataURL_def Let_def)
  have g: "phase_of (reader_onload f s1) = Processing"
    by (simp add: reader_onload_def store_original_def processImage_def
        showOriginalImage_def hideAlerts_def hideImageLoadingState_def
        showProcessingState_def readAsDataURL_def Let_def phase_of_def)
  have h: "\<forall>e s2 s3. fire e s2 = Some s3 \<and> (\<forall>j. e \<noteq> ReaderLoad j) \<longrightarrow> sent s3 = sent s2"
    using fire_sent_unchanged by blast
  from handleImageFile_sent [of f s] a b c d e reader_onload_sent [of f s1]
    reader_onload_inflight [of f s1] g h
  show ?thesis by blast
qed

theorem acquisition_then_one_request_witness:
  "startsWith (ftype photo_a) ''image/'' \<and> fsize photo_a \<le> maxSize \<and>
   sent (handleImageFile photo_a initial) = [] \<and>
   readers (handleImageFile photo_a initial) = [photo_a] \<and>
   phase_of (handleImageFile photo_a initial) = Idle \<and>
   run [Change (Some photo_a), ReaderLoad 0] initial = Some (after acquire_a) \<and>
   currentImageData (after acquire_a) = Some ''data:image/png;base64,QQ=='' \<and>
   sent (after acquire_a) =
     [\<lparr>url = ''/process-image'', http_method = ''POST'',
       img = ''data:image/png;base64,QQ=='', timeout_ms = 60000\<rparr>] \<and>
   phase_of (after acquire_a) = Processing"
  using acquisition_then_one_request [of photo_a initial initial]
  by (simp add: eval_samples eval_handlers phase_of_def)

section \<open>The size formatter beyond its units\<close>



end
